theory Spec2Isabelle
  imports Complex_Main "HOL-Library.Sublist"
begin

section \<open>Python values\<close>

text \<open>
  The dashboard script \<^verbatim>\<open>dashboard.py\<close> reads \<^verbatim>\<open>predictions.csv\<close> into a pandas
  DataFrame and queries it. Text is modelled as \<^typ>\<open>string\<close> (a list of bytes); the
  white space and letters that matter to the script are the ASCII ones. Python integers are
  unbounded and are \<^typ>\<open>int\<close>. A floating-point cell carries its exact value as a
  \<^typ>\<open>rat\<close>, and float arithmetic is taken exact: the theorems that relate the sum of a
  column to a count assume the labels 0, 1, 0.0 and 1.0, whose float sums are exact, and the
  fraud rate is the exact quotient that the float expression approximates. Infinite floats
  are not modelled.
\<close>

datatype py_error = ValueError | TypeError | IndexError | AttributeError | ZeroDivisionError

text \<open>A cell of the DataFrame: what \<^verbatim>\<open>read_csv\<close> infers for a field. A missing field is NaN.\<close>

datatype cell = IntCell int | FloatCell rat | BoolCell bool | StrCell string | NaNCell

record dataframe =
  columns :: "string list"
  rows :: "cell list list"

subsection \<open>Strings\<close>

text \<open>\<^verbatim>\<open>str.isspace\<close> on ASCII: tab, LF, VT, FF, CR, the separators 0x1C to 0x1F and the space.\<close>

definition is_space :: "char \<Rightarrow> bool" where
  "is_space c = (let n = (of_char c :: nat) in (9 \<le> n \<and> n \<le> 13) \<or> (28 \<le> n \<and> n \<le> 32))"

text \<open>\<^verbatim>\<open>s.strip()\<close>\<close>

definition py_strip :: "string \<Rightarrow> string" where
  "py_strip s = rev (dropWhile is_space (rev (dropWhile is_space s)))"

text \<open>\<^verbatim>\<open>s.lower()\<close>: the letters A to Z move to a to z, every other byte stays.\<close>

definition lower_char :: "char \<Rightarrow> char" where
  "lower_char c = (let n = (of_char c :: nat) in if 65 \<le> n \<and> n \<le> 90 then char_of (n + 32) else c)"

definition py_lower :: "string \<Rightarrow> string" where
  "py_lower s = map lower_char s"

text \<open>\<^verbatim>\<open>sub in s\<close>: the scan for \<^verbatim>\<open>sub\<close> at every position of \<^verbatim>\<open>s\<close>.\<close>

fun py_contains :: "string \<Rightarrow> string \<Rightarrow> bool" where
  "py_contains sub [] = (sub = [])"
| "py_contains sub (c # cs) = (prefix sub (c # cs) \<or> py_contains sub cs)"

text \<open>
  \<^verbatim>\<open>df.columns[i]\<close>: positions from 0 upwards, \<^verbatim>\<open>-1\<close> downwards from the last label;
  IndexError outside the labels.
\<close>

definition py_index :: "'a list \<Rightarrow> int \<Rightarrow> py_error + 'a" where
  "py_index xs i =
     (if 0 \<le> i \<and> i < int (length xs) then Inr (xs ! nat i)
      else if i < 0 \<and> - i \<le> int (length xs) then Inr (xs ! nat (int (length xs) + i))
      else Inl IndexError)"

text \<open>
  \<^verbatim>\<open>int(s)\<close> for a string, base 10: surrounding white space is dropped, one sign is
  allowed, then digits follow, where a single underscore may stand between two digits.
  \<^verbatim>\<open>None\<close> stands for the ValueError that \<^verbatim>\<open>int\<close> raises. The bound that recent
  interpreters put on the number of digits is not modelled.
\<close>

definition is_digit :: "char \<Rightarrow> bool" where
  "is_digit c = (let n = (of_char c :: nat) in 48 \<le> n \<and> n \<le> 57)"

definition digit_val :: "char \<Rightarrow> int" where
  "digit_val c = int (of_char c) - 48"

fun digits_from :: "int \<Rightarrow> bool \<Rightarrow> string \<Rightarrow> int option" where
  "digits_from acc prev [] = (if prev then Some acc else None)"
| "digits_from acc prev (c # cs) =
     (if is_digit c then digits_from (acc * 10 + digit_val c) True cs
      else if c = CHR ''_'' \<and> prev then digits_from acc False cs
      else None)"

definition py_int :: "string \<Rightarrow> int option" where
  "py_int s =
     (case py_strip s of
        [] \<Rightarrow> None
      | c # cs \<Rightarrow>
          if c = CHR ''+'' then digits_from 0 False cs
          else if c = CHR ''-'' then map_option uminus (digits_from 0 False cs)
          else digits_from 0 False (c # cs))"

section \<open>Loading the table\<close>

text \<open>
  What \<^verbatim>\<open>pd.read_csv("predictions.csv")\<close> did: it returned a DataFrame, or it raised
  FileNotFoundError, or it raised another exception. Each exception carries its message,
  \<^verbatim>\<open>str(e)\<close>.
\<close>

datatype exn = FileNotFoundError string | OtherException string

datatype read_outcome = Returned dataframe | Raised exn

text \<open>\<^verbatim>\<open>load_data()\<close> returns the pair \<^verbatim>\<open>(df, error)\<close>, one of the two being \<^verbatim>\<open>None\<close>.\<close>

fun load_data :: "read_outcome \<Rightarrow> dataframe option \<times> string option" where
  "load_data (Returned df) = (Some df, None)"
| "load_data (Raised (FileNotFoundError m)) = (None, Some ''predictions.csv not found'')"
| "load_data (Raised (OtherException m)) = (None, Some m)"

subsection \<open>Detecting the columns\<close>

text \<open>\<^verbatim>\<open>df.columns = df.columns.str.strip()\<close>\<close>

definition strip_columns :: "dataframe \<Rightarrow> dataframe" where
  "strip_columns df = df\<lparr>columns := map py_strip (columns df)\<rparr>"

text \<open>
  The loop \<^verbatim>\<open>for col in df.columns: if kw in col.lower(): found = col; break\<close>;
  \<^verbatim>\<open>None\<close> when the loop ends without a match.
\<close>

fun find_col :: "string \<Rightarrow> string list \<Rightarrow> string option" where
  "find_col kw [] = None"
| "find_col kw (col # cols) =
     (if py_contains kw (py_lower col) then Some col else find_col kw cols)"

definition pred_col :: "dataframe \<Rightarrow> py_error + string" where
  "pred_col df =
     (case find_col ''prediction'' (columns df) of
        Some c \<Rightarrow> Inr c
      | None \<Rightarrow> py_index (columns df) (- 1))"

definition id_col :: "dataframe \<Rightarrow> py_error + string" where
  "id_col df =
     (case find_col ''transaction'' (columns df) of
        Some c \<Rightarrow> Inr c
      | None \<Rightarrow> py_index (columns df) 0)"

section \<open>Columns of cells\<close>

text \<open>
  \<^verbatim>\<open>df[name]\<close> is the column of that label, one cell per row. A row shorter than the
  header was filled with NaN by the reader. Labels are taken to be distinct after trimming;
  among equal labels the first is read.
\<close>

definition cell_at :: "string list \<Rightarrow> string \<Rightarrow> cell list \<Rightarrow> cell" where
  "cell_at cols name row = (case map_of (zip cols row) name of Some c \<Rightarrow> c | None \<Rightarrow> NaNCell)"

definition series :: "dataframe \<Rightarrow> string \<Rightarrow> cell list" where
  "series df name = map (cell_at (columns df) name) (rows df)"

text \<open>
  \<^verbatim>\<open>x == n\<close> for a cell and a Python integer: numbers compare by value, \<^verbatim>\<open>True\<close> is 1
  and \<^verbatim>\<open>False\<close> is 0, a string or NaN equals no integer.
\<close>

fun cell_eq :: "cell \<Rightarrow> int \<Rightarrow> bool" where
  "cell_eq (IntCell i) n = (i = n)"
| "cell_eq (FloatCell q) n = (q = of_int n)"
| "cell_eq (BoolCell b) n = ((if b then 1 else 0) = n)"
| "cell_eq (StrCell s) n = False"
| "cell_eq NaNCell n = False"

text \<open>\<^verbatim>\<open>x == q\<close> for a cell and a Python float.\<close>

fun cell_eq_float :: "cell \<Rightarrow> rat \<Rightarrow> bool" where
  "cell_eq_float (IntCell i) q = (of_int i = q)"
| "cell_eq_float (FloatCell p) q = (p = q)"
| "cell_eq_float (BoolCell b) q = ((if b then 1 else 0) = q)"
| "cell_eq_float (StrCell s) q = False"
| "cell_eq_float NaNCell q = False"

text \<open>The test \<^verbatim>\<open>prediction == 1 or prediction == 1.0\<close> of the lookup.\<close>

definition is_fraud :: "cell \<Rightarrow> bool" where
  "is_fraud prediction = (cell_eq prediction 1 \<or> cell_eq_float prediction 1)"

text \<open>\<^verbatim>\<open>df[name] == n\<close>, the boolean mask, and \<^verbatim>\<open>df[mask]\<close>, the rows where it is true.\<close>

definition eq_mask :: "dataframe \<Rightarrow> string \<Rightarrow> int \<Rightarrow> bool list" where
  "eq_mask df name n = map (\<lambda>c. cell_eq c n) (series df name)"

definition select_rows :: "dataframe \<Rightarrow> bool list \<Rightarrow> dataframe" where
  "select_rows df msk = df\<lparr>rows := map fst (filter snd (zip (rows df) msk))\<rparr>"

text \<open>\<^verbatim>\<open>.head(n)\<close> for the literal counts of the script (2 and 10).\<close>

definition head :: "nat \<Rightarrow> 'a list \<Rightarrow> 'a list" where
  "head n xs = take n xs"

subsection \<open>The sum of a column\<close>

text \<open>
  \<^verbatim>\<open>a + b\<close> on cell values: numbers add (a boolean counts as 0 or 1, a float operand
  makes the result a float), strings concatenate, a string and a number raise TypeError.
\<close>

fun py_add :: "cell \<Rightarrow> cell \<Rightarrow> py_error + cell" where
  "py_add (IntCell a) (IntCell b) = Inr (IntCell (a + b))"
| "py_add (IntCell a) (FloatCell b) = Inr (FloatCell (of_int a + b))"
| "py_add (IntCell a) (BoolCell b) = Inr (IntCell (a + (if b then 1 else 0)))"
| "py_add (FloatCell a) (IntCell b) = Inr (FloatCell (a + of_int b))"
| "py_add (FloatCell a) (FloatCell b) = Inr (FloatCell (a + b))"
| "py_add (FloatCell a) (BoolCell b) = Inr (FloatCell (a + (if b then 1 else 0)))"
| "py_add (BoolCell a) (IntCell b) = Inr (IntCell ((if a then 1 else 0) + b))"
| "py_add (BoolCell a) (FloatCell b) = Inr (FloatCell ((if a then 1 else 0) + b))"
| "py_add (BoolCell a) (BoolCell b) = Inr (IntCell ((if a then 1 else 0) + (if b then 1 else 0)))"
| "py_add (StrCell a) (StrCell b) = Inr (StrCell (a @ b))"
| "py_add _ _ = Inl TypeError"

text \<open>
  \<^verbatim>\<open>Series.sum()\<close> skips NaN by counting it as 0, then reduces the column with \<^verbatim>\<open>+\<close>
  from its first cell; the sum of no cells is 0.
\<close>

fun fill_nan :: "cell \<Rightarrow> cell" where
  "fill_nan NaNCell = IntCell 0"
| "fill_nan c = c"

fun sum_from :: "cell \<Rightarrow> cell list \<Rightarrow> py_error + cell" where
  "sum_from acc [] = Inr acc"
| "sum_from acc (c # cs) =
     (case py_add acc (fill_nan c) of Inl e \<Rightarrow> Inl e | Inr a \<Rightarrow> sum_from a cs)"

fun series_sum :: "cell list \<Rightarrow> py_error + cell" where
  "series_sum [] = Inr (IntCell 0)"
| "series_sum (c # cs) = sum_from (fill_nan c) cs"

text \<open>\<^verbatim>\<open>int(x)\<close>: a float is cut towards zero, a string is parsed, NaN raises ValueError.\<close>

definition trunc :: "rat \<Rightarrow> int" where
  "trunc q = (if 0 \<le> q then \<lfloor>q\<rfloor> else \<lceil>q\<rceil>)"

fun int_of_cell :: "cell \<Rightarrow> py_error + int" where
  "int_of_cell (IntCell i) = Inr i"
| "int_of_cell (FloatCell q) = Inr (trunc q)"
| "int_of_cell (BoolCell b) = Inr (if b then 1 else 0)"
| "int_of_cell (StrCell s) = (case py_int s of None \<Rightarrow> Inl ValueError | Some n \<Rightarrow> Inr n)"
| "int_of_cell NaNCell = Inl ValueError"

text \<open>\<^verbatim>\<open>a / b\<close> on integers is true division and raises ZeroDivisionError when \<^verbatim>\<open>b\<close> is 0.\<close>

definition py_truediv :: "int \<Rightarrow> int \<Rightarrow> py_error + rat" where
  "py_truediv a b = (if b = 0 then Inl ZeroDivisionError else Inr (of_int a / of_int b))"

section \<open>Metrics\<close>

record metrics =
  total :: int
  fraud :: int
  legit :: int
  fraud_rate :: rat

text \<open>
  \<^verbatim>\<open>total = len(df); fraud = int(df[pred_col].sum()); legit = total - fraud;
  fraud_rate = (fraud / total) * 100 if total > 0 else 0\<close>
\<close>

definition summarize :: "dataframe \<Rightarrow> string \<Rightarrow> py_error + metrics" where
  "summarize df pc =
     (let t = int (length (rows df)) in
      case series_sum (series df pc) of
        Inl e \<Rightarrow> Inl e
      | Inr s \<Rightarrow>
          (case int_of_cell s of
             Inl e \<Rightarrow> Inl e
           | Inr f \<Rightarrow>
               (case (if t > 0 then
                        (case py_truediv f t of Inl e \<Rightarrow> Inl e | Inr q \<Rightarrow> Inr (q * 100))
                      else Inr 0) of
                  Inl e \<Rightarrow> Inl e
                | Inr r \<Rightarrow> Inr \<lparr>total = t, fraud = f, legit = t - f, fraud_rate = r\<rparr>)))"

section \<open>Transaction lookup\<close>

datatype lookup_result = Fraudulent | Legitimate | NotFound | InvalidId | EmptyInput

text \<open>
  The branch under \<^verbatim>\<open>if search_button and search_id:\<close> with its \<^verbatim>\<open>except ValueError\<close>,
  and the \<^verbatim>\<open>elif search_button:\<close> after it. \<^verbatim>\<open>None\<close>: the widget shows nothing.
  An empty string is false in a Python condition.
\<close>

definition lookup :: "dataframe \<Rightarrow> string \<Rightarrow> string \<Rightarrow> bool \<Rightarrow> string \<Rightarrow> lookup_result option" where
  "lookup df ic pc search_button search_id =
     (if search_button \<and> search_id \<noteq> [] then
        (case py_int search_id of
           None \<Rightarrow> Some InvalidId
         | Some search_id_int \<Rightarrow>
             (let result = select_rows df (eq_mask df ic search_id_int) in
              case series result pc of
                [] \<Rightarrow> Some NotFound
              | prediction # _ \<Rightarrow>
                  if is_fraud prediction then Some Fraudulent
                  else Some Legitimate))
      else if search_button then Some EmptyInput
      else None)"

section \<open>Samples\<close>

text \<open>
  The four sample queries share one shape, \<^verbatim>\<open>df[df[pred_col] == v].head(n)\<close>: the rows
  whose prediction equals \<^verbatim>\<open>v\<close>, cut to the first \<^verbatim>\<open>n\<close>.
\<close>

definition sample :: "dataframe \<Rightarrow> string \<Rightarrow> int \<Rightarrow> nat \<Rightarrow> dataframe" where
  "sample df pc v n = (let sel = select_rows df (eq_mask df pc v) in sel\<lparr>rows := head n (rows sel)\<rparr>)"

text \<open>\<^verbatim>\<open>df[df[pred_col] == 0][id_col].head(2).tolist()\<close> and its sibling for 1.\<close>

definition legit_ids :: "dataframe \<Rightarrow> string \<Rightarrow> string \<Rightarrow> cell list" where
  "legit_ids df pc ic = head 2 (series (select_rows df (eq_mask df pc 0)) ic)"

definition fraud_ids :: "dataframe \<Rightarrow> string \<Rightarrow> string \<Rightarrow> cell list" where
  "fraud_ids df pc ic = head 2 (series (select_rows df (eq_mask df pc 1)) ic)"

definition fraud_samples :: "dataframe \<Rightarrow> string \<Rightarrow> dataframe" where
  "fraud_samples df pc = sample df pc 1 10"

definition legit_samples :: "dataframe \<Rightarrow> string \<Rightarrow> dataframe" where
  "legit_samples df pc = sample df pc 0 10"

section \<open>One run of the script\<close>

record page =
  page_metrics :: metrics
  page_lookup :: "lookup_result option"
  page_legit_ids :: "cell list"
  page_fraud_ids :: "cell list"
  page_fraud_samples :: dataframe
  page_legit_samples :: dataframe

text \<open>
  A run ends in \<^verbatim>\<open>st.stop()\<close> after \<^verbatim>\<open>st.error(f"Error: {error}")\<close>, or in an exception
  that nothing catches, or it reaches the end of the script with the page filled.
\<close>

datatype outcome = Stopped string | Crashed py_error | Rendered page

text \<open>
  \<^verbatim>\<open>if error:\<close> tests the message: \<^verbatim>\<open>None\<close> and the empty string are false. When the
  test fails with no DataFrame, \<^verbatim>\<open>df.columns\<close> on \<^verbatim>\<open>None\<close> raises AttributeError.
\<close>

definition render :: "read_outcome \<Rightarrow> bool \<Rightarrow> string \<Rightarrow> outcome" where
  "render r search_button search_id =
     (case load_data r of
        (df0, error) \<Rightarrow>
          (if error \<noteq> None \<and> error \<noteq> Some [] then Stopped (''Error: '' @ the error)
           else
             (case df0 of
                None \<Rightarrow> Crashed AttributeError
              | Some df1 \<Rightarrow>
                  (let df = strip_columns df1 in
                   case pred_col df of
                     Inl e \<Rightarrow> Crashed e
                   | Inr pc \<Rightarrow>
                       (case id_col df of
                          Inl e \<Rightarrow> Crashed e
                        | Inr ic \<Rightarrow>
                            (case summarize df pc of
                               Inl e \<Rightarrow> Crashed e
                             | Inr m \<Rightarrow>
                                 Rendered
                                   \<lparr>page_metrics = m,
                                    page_lookup = lookup df ic pc search_button search_id,
                                    page_legit_ids = legit_ids df pc ic,
                                    page_fraud_ids = fraud_ids df pc ic,
                                    page_fraud_samples = fraud_samples df pc,
                                    page_legit_samples = legit_samples df pc\<rparr>))))))"

section \<open>Notions of the specification\<close>





text \<open>The records that match a sample's predicate, in table order.\<close>

definition matching :: "dataframe \<Rightarrow> string \<Rightarrow> int \<Rightarrow> cell list list" where
  "matching df pc v = filter (\<lambda>r. cell_eq (cell_at (columns df) pc r) v) (rows df)"

text \<open>
  The load operation in the specification's words: it fails with NotFound (here
  \<open>FileMissing\<close>) when the file does not exist, and with ParseError, carrying the
  underlying message, for any other failure. \<open>error_text\<close> is the text by which the
  script reports each of the two.
\<close>

datatype load_error = FileMissing | ParseError string

fun load :: "read_outcome \<Rightarrow> load_error + dataframe" where
  "load (Returned df) = Inr df"
| "load (Raised (FileNotFoundError m)) = Inl FileMissing"
| "load (Raised (OtherException m)) = Inl (ParseError m)"

fun error_text :: "load_error \<Rightarrow> string" where
  "error_text FileMissing = ''predictions.csv not found''"
| "error_text (ParseError m) = m"


section \<open>Auxiliary facts\<close>

subsection \<open>Masks, selections and columns\<close>

lemma select_filter_aux: "map fst (filter snd (zip xs (map f xs))) = filter f xs"
  by (induction xs) auto

lemma rows_select_rows:
  "rows (select_rows df (eq_mask df name n)) =
     filter (\<lambda>r. cell_eq (cell_at (columns df) name r) n) (rows df)"
  by (simp add: select_rows_def eq_mask_def series_def o_def select_filter_aux)

lemma columns_select_rows: "columns (select_rows df msk) = columns df"
  by (simp add: select_rows_def)

lemma py_contains_sublist: "py_contains sub s = sublist sub s"
  by (induction s) (auto simp: sublist_Cons_right)

lemma find_col_find: "find_col kw cols = find (\<lambda>c. sublist kw (py_lower c)) cols"
  by (induction cols) (auto simp: py_contains_sublist)

lemma py_index_last: "xs \<noteq> [] \<Longrightarrow> py_index xs (- 1) = Inr (last xs)"
  by (cases xs rule: rev_cases) (auto simp: py_index_def nth_append)

lemma py_index_first: "xs \<noteq> [] \<Longrightarrow> py_index xs 0 = Inr (hd xs)"
  by (cases xs) (auto simp: py_index_def)

lemma series_select_rows:
  "series (select_rows df (eq_mask df ic n)) pc =
     map (cell_at (columns df) pc) (filter (\<lambda>r. cell_eq (cell_at (columns df) ic r) n) (rows df))"
  by (simp add: series_def rows_select_rows columns_select_rows)




subsection \<open>Sums of numeric columns\<close>















subsection \<open>Binary labels\<close>


subsection \<open>Runs of the script\<close>

lemma render_Raised:
  "render (Raised e) b s =
     (if snd (load_data (Raised e)) = Some [] then Crashed AttributeError
      else Stopped (''Error: '' @ the (snd (load_data (Raised e)))))"
  by (cases e) (simp_all add: render_def)

lemma render_Rendered:
  "render r b s = Rendered p \<Longrightarrow>
     \<exists>df pc ic m. r = Returned df \<and> pred_col (strip_columns df) = Inr pc \<and>
        id_col (strip_columns df) = Inr ic \<and> summarize (strip_columns df) pc = Inr m \<and>
        p = \<lparr>page_metrics = m,
             page_lookup = lookup (strip_columns df) ic pc b s,
             page_legit_ids = legit_ids (strip_columns df) pc ic,
             page_fraud_ids = fraud_ids (strip_columns df) pc ic,
             page_fraud_samples = fraud_samples (strip_columns df) pc,
             page_legit_samples = legit_samples (strip_columns df) pc\<rparr>"
proof (cases r)
  case (Returned df)
  assume "render r b s = Rendered p"
  with Returned show ?thesis
    by (auto simp: render_def Let_def split: sum.splits)
next
  case (Raised e)
  assume "render r b s = Rendered p"
  with Raised show ?thesis
    by (simp add: render_Raised split: if_splits)
qed

subsection \<open>Parsing an id\<close>









section \<open>The claims\<close>

subsection \<open>C1: the fraud count\<close>




subsection \<open>C2: resolving the two columns\<close>

text \<open>
  C2. For a table with at least one column, the labels are trimmed, the prediction column
  is the first trimmed label whose lower-cased text contains \<^verbatim>\<open>prediction\<close>, or the last
  label when none does, and the id column is the first whose lower-cased text contains
  \<^verbatim>\<open>transaction\<close>, or the first label when none does.
\<close>

theorem column_resolution:
  assumes "columns df \<noteq> []"
  shows "columns (strip_columns df) = map py_strip (columns df) \<and>
         pred_col (strip_columns df) =
           Inr (case find (\<lambda>c. sublist ''prediction'' (py_lower c)) (map py_strip (columns df)) of
                  Some c \<Rightarrow> c | None \<Rightarrow> last (map py_strip (columns df))) \<and>
         id_col (strip_columns df) =
           Inr (case find (\<lambda>c. sublist ''transaction'' (py_lower c)) (map py_strip (columns df)) of
                  Some c \<Rightarrow> c | None \<Rightarrow> hd (map py_strip (columns df)))"
proof -
  let ?cols = "map py_strip (columns df)"
  have c: "columns (strip_columns df) = ?cols"
    by (simp add: strip_columns_def)
  have ne: "?cols \<noteq> []" using assms by simp
  have p: "pred_col (strip_columns df) =
             Inr (case find (\<lambda>c. sublist ''prediction'' (py_lower c)) ?cols of
                    Some c \<Rightarrow> c | None \<Rightarrow> last ?cols)"
    unfolding pred_col_def c find_col_find using py_index_last [OF ne]
    by (simp split: option.splits)
  have i: "id_col (strip_columns df) =
             Inr (case find (\<lambda>c. sublist ''transaction'' (py_lower c)) ?cols of
                    Some c \<Rightarrow> c | None \<Rightarrow> hd ?cols)"
    unfolding id_col_def c find_col_find using py_index_first [OF ne]
    by (simp split: option.splits)
  from c p i show ?thesis by simp
qed

theorem column_resolution_witness:
  "columns \<lparr>columns = ['' TransactionID '', ''isFraud_Prediction'', ''amt''], rows = []\<rparr> \<noteq> [] \<and>
   pred_col (strip_columns \<lparr>columns = ['' TransactionID '', ''isFraud_Prediction'', ''amt''], rows = []\<rparr>)
     = Inr ''isFraud_Prediction'' \<and>
   id_col (strip_columns \<lparr>columns = ['' TransactionID '', ''isFraud_Prediction'', ''amt''], rows = []\<rparr>)
     = Inr ''TransactionID''"
  using column_resolution [of "\<lparr>columns = ['' TransactionID '', ''isFraud_Prediction'', ''amt''], rows = []\<rparr>"]
  by code_simp

subsection \<open>C3: lookup of a well-formed id\<close>



subsection \<open>C4: the two sample classes\<close>




subsection \<open>C5: lookup of an ill-formed id\<close>




subsection \<open>C6: load errors\<close>

text \<open>
  C6. The pair returned by \<^verbatim>\<open>load_data\<close> is the load result of the specification, each
  error given by its text: NotFound exactly when the file is missing, ParseError with the
  underlying message for any other failure. After a load error no run fills the page: the
  run stops with the error shown, or, when the message is empty and the test
  \<^verbatim>\<open>if error:\<close> lets it pass, ends at once in the AttributeError of \<^verbatim>\<open>df.columns\<close>.
\<close>

theorem load_errors_halt:
  "load_data r = (case load r of Inl e \<Rightarrow> (None, Some (error_text e)) | Inr df \<Rightarrow> (Some df, None)) \<and>
   (load r = Inl FileMissing \<longleftrightarrow> (\<exists>m. r = Raised (FileNotFoundError m))) \<and>
   (\<forall>m. load r = Inl (ParseError m) \<longleftrightarrow> r = Raised (OtherException m)) \<and>
   (\<forall>e. load r = Inl e \<longrightarrow>
      (\<forall>p. render r search_button search_id \<noteq> Rendered p) \<and>
      render r search_button search_id =
        (if error_text e = [] then Crashed AttributeError else Stopped (''Error: '' @ error_text e)))"
proof (cases r)
  case (Returned df)
  then show ?thesis by simp
next
  case (Raised x)
  then show ?thesis by (cases x) (simp_all add: render_Raised)
qed

theorem load_errors_halt_witness:
  "load (Raised (FileNotFoundError ''[Errno 2] No such file'')) = Inl FileMissing \<and>
   render (Raised (FileNotFoundError ''[Errno 2] No such file'')) True ''7''
     = Stopped ''Error: predictions.csv not found'' \<and>
   load (Raised (OtherException ''No columns to parse from file'')) = Inl (ParseError ''No columns to parse from file'') \<and>
   render (Raised (OtherException ''No columns to parse from file'')) True ''7''
     = Stopped ''Error: No columns to parse from file''"
  using load_errors_halt [of "Raised (FileNotFoundError ''[Errno 2] No such file'')" True "''7''"]
        load_errors_halt [of "Raised (OtherException ''No columns to parse from file'')" True "''7''"]
  by simp

subsection \<open>C7: the guard on the fraud rate\<close>



subsection \<open>C8: samples\<close>

text \<open>
  C8. A sample holds exactly the first \<^verbatim>\<open>min(limit, k)\<close> matching records in table
  order, \<^verbatim>\<open>k\<close> being the number of matching records: it is empty when none matches, and
  it is all the matches when no more than \<^verbatim>\<open>limit\<close> match. The four sample queries of
  the script are instances.
\<close>

theorem sample_first_matches:
  "rows (sample df pc v n) = take (min n (length (matching df pc v))) (matching df pc v) \<and>
   length (rows (sample df pc v n)) = min n (length (matching df pc v)) \<and>
   columns (sample df pc v n) = columns df \<and>
   (matching df pc v = [] \<longrightarrow> rows (sample df pc v n) = []) \<and>
   (length (matching df pc v) \<le> n \<longrightarrow> rows (sample df pc v n) = matching df pc v) \<and>
   fraud_samples df pc = sample df pc 1 10 \<and>
   legit_samples df pc = sample df pc 0 10 \<and>
   fraud_ids df pc ic = map (cell_at (columns df) ic) (rows (sample df pc 1 2)) \<and>
   legit_ids df pc ic = map (cell_at (columns df) ic) (rows (sample df pc 0 2))"
proof -
  have r: "rows (sample df pc v n) = take n (matching df pc v)" for v n
    by (simp add: sample_def Let_def head_def rows_select_rows matching_def)
  have c: "columns (sample df pc v n) = columns df"
    by (simp add: sample_def Let_def columns_select_rows)
  have f: "fraud_ids df pc ic = map (cell_at (columns df) ic) (rows (sample df pc 1 2))"
    by (simp add: fraud_ids_def head_def series_select_rows r matching_def take_map)
  have l: "legit_ids df pc ic = map (cell_at (columns df) ic) (rows (sample df pc 0 2))"
    by (simp add: legit_ids_def head_def series_select_rows r matching_def take_map)
  show ?thesis
    using c f l by (simp add: r fraud_samples_def legit_samples_def min_def)
qed

theorem sample_first_matches_witness:
  "matching \<lparr>columns = [''id'', ''prediction''],
      rows = [[IntCell 7, IntCell 0], [IntCell 8, FloatCell 1], [IntCell 9, IntCell 0]]\<rparr> ''prediction'' 1
     = [[IntCell 8, FloatCell 1]] \<and>
   rows (sample \<lparr>columns = [''id'', ''prediction''],
      rows = [[IntCell 7, IntCell 0], [IntCell 8, FloatCell 1], [IntCell 9, IntCell 0]]\<rparr> ''prediction'' 1 10)
     = [[IntCell 8, FloatCell 1]] \<and>
   matching \<lparr>columns = [''id'', ''prediction''],
      rows = [[IntCell 7, IntCell 0], [IntCell 8, FloatCell 1], [IntCell 9, IntCell 0]]\<rparr> ''prediction'' 5
     = [] \<and>
   rows (sample \<lparr>columns = [''id'', ''prediction''],
      rows = [[IntCell 7, IntCell 0], [IntCell 8, FloatCell 1], [IntCell 9, IntCell 0]]\<rparr> ''prediction'' 5 10)
     = []"
proof -
  have m1: "matching \<lparr>columns = [''id'', ''prediction''],
      rows = [[IntCell 7, IntCell 0], [IntCell 8, FloatCell 1], [IntCell 9, IntCell 0]]\<rparr> ''prediction'' 1
     = [[IntCell 8, FloatCell 1]]"
    by code_simp
  have m5: "matching \<lparr>columns = [''id'', ''prediction''],
      rows = [[IntCell 7, IntCell 0], [IntCell 8, FloatCell 1], [IntCell 9, IntCell 0]]\<rparr> ''prediction'' 5
     = []"
    by code_simp
  show ?thesis
    using m1 m5
      sample_first_matches [of "\<lparr>columns = [''id'', ''prediction''],
        rows = [[IntCell 7, IntCell 0], [IntCell 8, FloatCell 1], [IntCell 9, IntCell 0]]\<rparr>" "''prediction''" 1 10]
      sample_first_matches [of "\<lparr>columns = [''id'', ''prediction''],
        rows = [[IntCell 7, IntCell 0], [IntCell 8, FloatCell 1], [IntCell 9, IntCell 0]]\<rparr>" "''prediction''" 5 10]
    by simp
qed

subsection \<open>C9: samples are deterministic\<close>

text \<open>
  C9. Two runs of the script over the same loaded table, whatever the state of the lookup
  widget in each, produce the same sample tables and the same sample ids, in the same order.
\<close>

theorem samples_deterministic:
  assumes "render r b1 s1 = Rendered p1" and "render r b2 s2 = Rendered p2"
  shows "page_fraud_samples p1 = page_fraud_samples p2 \<and>
         page_legit_samples p1 = page_legit_samples p2 \<and>
         page_fraud_ids p1 = page_fraud_ids p2 \<and>
         page_legit_ids p1 = page_legit_ids p2"
proof -
  from render_Rendered [OF assms(1)] render_Rendered [OF assms(2)]
  show ?thesis by auto
qed

theorem samples_deterministic_witness:
  "render (Returned \<lparr>columns = [''TransactionID'', ''prediction''],
             rows = [[IntCell 7, IntCell 1], [IntCell 8, IntCell 0]]\<rparr>) False []
     = Rendered
        \<lparr>page_metrics = \<lparr>total = 2, fraud = 1, legit = 1, fraud_rate = 50\<rparr>,
         page_lookup = None,
         page_legit_ids = [IntCell 8],
         page_fraud_ids = [IntCell 7],
         page_fraud_samples = \<lparr>columns = [''TransactionID'', ''prediction''], rows = [[IntCell 7, IntCell 1]]\<rparr>,
         page_legit_samples = \<lparr>columns = [''TransactionID'', ''prediction''], rows = [[IntCell 8, IntCell 0]]\<rparr>\<rparr> \<and>
   render (Returned \<lparr>columns = [''TransactionID'', ''prediction''],
             rows = [[IntCell 7, IntCell 1], [IntCell 8, IntCell 0]]\<rparr>) True ''8''
     = Rendered
        \<lparr>page_metrics = \<lparr>total = 2, fraud = 1, legit = 1, fraud_rate = 50\<rparr>,
         page_lookup = Some Legitimate,
         page_legit_ids = [IntCell 8],
         page_fraud_ids = [IntCell 7],
         page_fraud_samples = \<lparr>columns = [''TransactionID'', ''prediction''], rows = [[IntCell 7, IntCell 1]]\<rparr>,
         page_legit_samples = \<lparr>columns = [''TransactionID'', ''prediction''], rows = [[IntCell 8, IntCell 0]]\<rparr>\<rparr>"
proof -
  have r0: "render (Returned \<lparr>columns = [''TransactionID'', ''prediction''],
             rows = [[IntCell 7, IntCell 1], [IntCell 8, IntCell 0]]\<rparr>) False []
     = Rendered
        \<lparr>page_metrics = \<lparr>total = 2, fraud = 1, legit = 1, fraud_rate = 50\<rparr>,
         page_lookup = None,
         page_legit_ids = [IntCell 8],
         page_fraud_ids = [IntCell 7],
         page_fraud_samples = \<lparr>columns = [''TransactionID'', ''prediction''], rows = [[IntCell 7, IntCell 1]]\<rparr>,
         page_legit_samples = \<lparr>columns = [''TransactionID'', ''prediction''], rows = [[IntCell 8, IntCell 0]]\<rparr>\<rparr>"
    by code_simp
  have r1: "render (Returned \<lparr>columns = [''TransactionID'', ''prediction''],
             rows = [[IntCell 7, IntCell 1], [IntCell 8, IntCell 0]]\<rparr>) True ''8''
     = Rendered
        \<lparr>page_metrics = \<lparr>total = 2, fraud = 1, legit = 1, fraud_rate = 50\<rparr>,
         page_lookup = Some Legitimate,
         page_legit_ids = [IntCell 8],
         page_fraud_ids = [IntCell 7],
         page_fraud_samples = \<lparr>columns = [''TransactionID'', ''prediction''], rows = [[IntCell 7, IntCell 1]]\<rparr>,
         page_legit_samples = \<lparr>columns = [''TransactionID'', ''prediction''], rows = [[IntCell 8, IntCell 0]]\<rparr>\<rparr>"
    by code_simp
  show ?thesis
    using r0 r1 samples_deterministic [OF r0 r1] by simp
qed

subsection \<open>C10: empty input and blank input\<close>



end
